theory Spec2Isabelle
  imports Main
begin

section \<open>The Form component: validation, error collection and submit routing\<close>

text \<open>
  The model follows the script of the Form component (\<open>src/unnamed/part_005\<close>, lines 7 to
  262). Every asynchronous function is modelled as run to completion: an \<open>await\<close> is the
  point where a rejected promise becomes a thrown value, and thrown values are the left
  summand of a sum type. Interleaving of two calls that are both suspended is outside the
  model.
\<close>

subsection \<open>JavaScript values seen by the duck-typing tests\<close>

text \<open>
  \<open>JObject\<close> stands for any object, functions included. Numbers are integers here; the
  only use made of a number is its truthiness.
\<close>

datatype jsval = JUndefined | JNull | JBool bool | JNum int | JStr string | JObject

fun truthy :: "jsval \<Rightarrow> bool" where
  "truthy JUndefined = False"
| "truthy JNull = False"
| "truthy (JBool b) = b"
| "truthy (JNum n) = (n \<noteq> 0)"
| "truthy (JStr s) = (s \<noteq> [])"
| "truthy JObject = True"

text \<open>
  A property of a schema object that the component calls: either a function, or some other
  value (\<open>NotCallable JUndefined\<close> when the property is absent).
\<close>

datatype 'f member = NotCallable jsval | Callable 'f

fun member_truthy :: "'f member \<Rightarrow> bool" where
  "member_truthy (NotCallable v) = truthy v"
| "member_truthy (Callable f) = True"

fun member_defined :: "'f member \<Rightarrow> bool" where
  "member_defined (NotCallable v) = (v \<noteq> JUndefined)"
| "member_defined (Callable f) = True"

subsection \<open>Path segments and \<open>Array.prototype.join\<close>\<close>

text \<open>
  A segment of an issue's path is a string or something else, a number in the types of the
  schema libraries. \<open>join\<close> puts a string in as it is and anything else through the
  \<open>ToString\<close> of the JavaScript runtime (\<open>10\<close> gives \<open>10\<close>, \<open>0.5\<close> gives \<open>0.5\<close>, ten to the
  power 21 gives \<open>1e+21\<close>). That conversion is not code of the component: the functions
  below take it as the parameter \<open>ts\<close>, over any type \<open>'n\<close> of such values.
\<close>

datatype 'n seg = Key string | Num 'n

fun seg_string :: "('n \<Rightarrow> string) \<Rightarrow> 'n seg \<Rightarrow> string" where
  "seg_string ts (Key s) = s"
| "seg_string ts (Num n) = ts n"

fun join :: "string \<Rightarrow> string list \<Rightarrow> string" where
  "join sep [] = []"
| "join sep [x] = x"
| "join sep (x # y # ys) = x @ sep @ join sep (y # ys)"

subsection \<open>The error model and the native issue shapes\<close>

record FormError =
  path :: string
  message :: string

record 'n zod_issue =
  zod_path :: "'n seg list"
  zod_message :: string

datatype 'n zod_result = ZodSuccess | ZodFailure "'n zod_issue list"

text \<open>The path of a Yup issue is a string, or absent (\<open>issue.path ?? ''\<close>).\<close>

record yup_issue =
  yup_path :: "string option"
  yup_message :: string

record 'n joi_detail =
  joi_path :: "'n seg list"
  joi_message :: string

record 'n valibot_path_item =
  item_key :: "'n seg"

record 'n valibot_issue =
  valibot_path :: "'n valibot_path_item list option"
  valibot_message :: string

record 'n valibot_result =
  issues :: "'n valibot_issue list option"

subsection \<open>Thrown values\<close>

text \<open>
  An object thrown by code outside the component (a schema library, the imperative
  validator). The component reads three of its properties: \<open>inner\<close> (\<open>isYupError\<close>),
  \<open>isJoi\<close> (\<open>isJoiError\<close>) and \<open>details\<close>; \<open>None\<close> is \<open>undefined\<close>. Everything else
  the object carries is \<open>other\<close>. Thrown values are objects: a thrown \<open>null\<close> or
  \<open>undefined\<close>, on which the reads themselves would fail, is not part of the model.
\<close>

record ('n, 'x) thrown =
  inner :: "yup_issue list option"
  isJoi :: jsval
  details :: "'n joi_detail list option"
  other :: 'x

text \<open>
  What an \<open>await\<close> of the component can throw: its own \<open>FormException\<close> (the message is
  \<open>'Form validation failed: '\<close> followed by the JSON text of the error collection; the
  model keeps the collection), the \<open>Error('Form validation failed: Unsupported form
  schema')\<close> of \<open>getErrors\<close>, the \<open>TypeError\<close> of calling or reading what is not there, and
  an object thrown by outside code. The class \<open>FormException\<close> is private to the script, so
  what outside code throws is never one: \<open>call_method\<close> and \<open>getErrors\<close> wrap it in
  \<open>Thrown\<close>.
\<close>

datatype ('n, 'x) exn =
  FormException "FormError list"
| UnsupportedSchema
| TypeError
| Thrown "('n, 'x) thrown"

fun exn_inner :: "('n, 'x) exn \<Rightarrow> yup_issue list option" where
  "exn_inner (Thrown e) = inner e"
| "exn_inner _ = None"

fun exn_isJoi :: "('n, 'x) exn \<Rightarrow> jsval" where
  "exn_isJoi (Thrown e) = isJoi e"
| "exn_isJoi _ = JUndefined"

fun exn_details :: "('n, 'x) exn \<Rightarrow> 'n joi_detail list option" where
  "exn_details (Thrown e) = details e"
| "exn_details _ = None"

subsection \<open>Schemas and props\<close>

text \<open>
  The properties of a schema object that the component reads or calls. The native entry
  points take the form state (Yup and Joi are called with \<open>{ abortEarly: false }\<close>, which
  is part of the function here) and either throw or return.
\<close>

record ('s, 'n, 'x) schema =
  parse :: jsval
  safeParseAsync :: "('s \<Rightarrow> ('n, 'x) thrown + 'n zod_result) member"
  validate_method :: "('s \<Rightarrow> ('n, 'x) thrown + unit) member"
  isYupSchema_marker :: jsval
  validateAsync :: "('s \<Rightarrow> ('n, 'x) thrown + unit) member"
  schema_id :: jsval
  parse_internal :: "('s \<Rightarrow> ('n, 'x) thrown + 'n valibot_result) member"

datatype FormEventType = Blur | Input | Change | Submit

record FormEvent =
  etype :: FormEventType
  epath :: string

text \<open>
  The props. \<open>schema\<close> is \<open>None\<close> when no schema is given; \<open>validateOn\<close> is \<open>None\<close> when
  it is null (the source reads it with \<open>?.\<close>).
\<close>

record ('s, 'n, 'x) props =
  schema :: "('s, 'n, 'x) schema option"
  state :: 's
  validate_prop :: "'s \<Rightarrow> ('n, 'x) thrown + FormError list"
  validateOn :: "FormEventType list option"
  disabled :: bool

definition default_validate :: "'s \<Rightarrow> ('n, 'x) thrown + FormError list" where
  "default_validate s = Inr []"

definition default_validateOn :: "FormEventType list option" where
  "default_validateOn = Some [Blur, Input, Change, Submit]"

definition validateOn_includes :: "('s, 'n, 'x) props \<Rightarrow> FormEventType \<Rightarrow> bool" where
  "validateOn_includes pr t =
     (case validateOn pr of None \<Rightarrow> False | Some types \<Rightarrow> t \<in> set types)"

text \<open>The refs of \<open>setup\<close>: the error collection and the registered inputs (path to id).\<close>

record form_refs =
  errors :: "FormError list"
  inputs :: "string \<rightharpoonup> string"

record validate_opts =
  silent :: "bool option"

definition default_opts :: validate_opts where
  "default_opts = \<lparr>silent = Some False\<rparr>"

text \<open>The test \<open>if (path)\<close> on an optional string: taken for a non-empty string only.\<close>

fun if_path :: "string option \<Rightarrow> string option" where
  "if_path None = None"
| "if_path (Some s) = (if s = [] then None else Some s)"

subsection \<open>The schema adapters\<close>

definition call_method :: "('s \<Rightarrow> ('n, 'x) thrown + 'r) member \<Rightarrow> 's \<Rightarrow> ('n, 'x) exn + 'r" where
  "call_method m s =
     (case m of
        Callable f \<Rightarrow> (case f s of Inl e \<Rightarrow> Inl (Thrown e) | Inr r \<Rightarrow> Inr r)
      | NotCallable v \<Rightarrow> Inl TypeError)"

definition isYupSchema :: "('s, 'n, 'x) schema \<Rightarrow> bool" where
  "isYupSchema sch = (member_truthy (validate_method sch) \<and> truthy (isYupSchema_marker sch))"

definition isYupError :: "('n, 'x) exn \<Rightarrow> bool" where
  "isYupError error = (exn_inner error \<noteq> None)"

definition getYupErrors :: "'s \<Rightarrow> ('s, 'n, 'x) schema \<Rightarrow> ('n, 'x) exn + FormError list" where
  "getYupErrors st sch =
     (case call_method (validate_method sch) st of
        Inr u \<Rightarrow> Inr []
      | Inl error \<Rightarrow>
          if isYupError error then
            (case exn_inner error of
               Some iss \<Rightarrow>
                 Inr (map (\<lambda>issue.
                   \<lparr>path = (case yup_path issue of None \<Rightarrow> [] | Some p \<Rightarrow> p),
                    message = yup_message issue\<rparr>) iss)
             | None \<Rightarrow> Inl TypeError)
          else Inl error)"

definition isZodSchema :: "('s, 'n, 'x) schema \<Rightarrow> bool" where
  "isZodSchema sch = (parse sch \<noteq> JUndefined)"

definition getZodErrors ::
  "('n \<Rightarrow> string) \<Rightarrow> 's \<Rightarrow> ('s, 'n, 'x) schema \<Rightarrow> ('n, 'x) exn + FormError list" where
  "getZodErrors ts st sch =
     (case call_method (safeParseAsync sch) st of
        Inl error \<Rightarrow> Inl error
      | Inr result \<Rightarrow>
          (case result of
             ZodFailure iss \<Rightarrow>
               Inr (map (\<lambda>issue.
                 \<lparr>path = join ''.'' (map (seg_string ts) (zod_path issue)),
                  message = zod_message issue\<rparr>) iss)
           | ZodSuccess \<Rightarrow> Inr []))"

definition isJoiSchema :: "('s, 'n, 'x) schema \<Rightarrow> bool" where
  "isJoiSchema sch = (member_defined (validateAsync sch) \<and> schema_id sch \<noteq> JUndefined)"

definition isJoiError :: "('n, 'x) exn \<Rightarrow> bool" where
  "isJoiError error = (exn_isJoi error = JBool True)"

definition getJoiErrors ::
  "('n \<Rightarrow> string) \<Rightarrow> 's \<Rightarrow> ('s, 'n, 'x) schema \<Rightarrow> ('n, 'x) exn + FormError list" where
  "getJoiErrors ts st sch =
     (case call_method (validateAsync sch) st of
        Inr u \<Rightarrow> Inr []
      | Inl error \<Rightarrow>
          if isJoiError error then
            (case exn_details error of
               Some ds \<Rightarrow>
                 Inr (map (\<lambda>detail.
                   \<lparr>path = join ''.'' (map (seg_string ts) (joi_path detail)),
                    message = joi_message detail\<rparr>) ds)
             | None \<Rightarrow> Inl TypeError)
          else Inl error)"

definition isValibotSchema :: "('s, 'n, 'x) schema \<Rightarrow> bool" where
  "isValibotSchema sch = member_defined (parse_internal sch)"

text \<open>\<open>issue.path?.map(p => p.key).join('.') || ''\<close>: an empty join is falsy.\<close>

definition valibot_issue_path :: "('n \<Rightarrow> string) \<Rightarrow> 'n valibot_issue \<Rightarrow> string" where
  "valibot_issue_path ts issue =
     (case valibot_path issue of
        None \<Rightarrow> []
      | Some items \<Rightarrow>
          (let s = join ''.'' (map (\<lambda>p. seg_string ts (item_key p)) items)
           in if s = [] then [] else s))"

definition getValibotError ::
  "('n \<Rightarrow> string) \<Rightarrow> 's \<Rightarrow> ('s, 'n, 'x) schema \<Rightarrow> ('n, 'x) exn + FormError list" where
  "getValibotError ts st sch =
     (case call_method (parse_internal sch) st of
        Inl error \<Rightarrow> Inl error
      | Inr result \<Rightarrow>
          (case issues result of
             Some iss \<Rightarrow>
               Inr (map (\<lambda>issue.
                 \<lparr>path = valibot_issue_path ts issue, message = valibot_message issue\<rparr>) iss)
           | None \<Rightarrow> Inr []))"

subsection \<open>The orchestrator\<close>

text \<open>\<open>errs.concat(await getXErrors(...))\<close>, with the rejection passed on.\<close>

definition concat_errors :: "FormError list \<Rightarrow> ('n, 'x) exn + FormError list \<Rightarrow> ('n, 'x) exn + FormError list" where
  "concat_errors errs r = (case r of Inl error \<Rightarrow> Inl error | Inr found \<Rightarrow> Inr (errs @ found))"

definition getErrors ::
  "('n \<Rightarrow> string) \<Rightarrow> ('s, 'n, 'x) props \<Rightarrow> ('n, 'x) exn + FormError list" where
  "getErrors ts pr =
     (case validate_prop pr (state pr) of
        Inl e \<Rightarrow> Inl (Thrown e)
      | Inr errs \<Rightarrow>
          (case schema pr of
             None \<Rightarrow> Inr errs
           | Some sch \<Rightarrow>
               if isZodSchema sch then concat_errors errs (getZodErrors ts (state pr) sch)
               else if isYupSchema sch then concat_errors errs (getYupErrors (state pr) sch)
               else if isJoiSchema sch then concat_errors errs (getJoiErrors ts (state pr) sch)
               else if isValibotSchema sch then concat_errors errs (getValibotError ts (state pr) sch)
               else Inl UnsupportedSchema))"

definition validate ::
  "('n \<Rightarrow> string) \<Rightarrow> ('s, 'n, 'x) props \<Rightarrow> string option \<Rightarrow> validate_opts \<Rightarrow> form_refs \<Rightarrow>
   form_refs \<times> (('n, 'x) exn + 's)" where
  "validate ts pr pth opts refs =
     (let assigned =
        (case if_path pth of
           Some p \<Rightarrow>
             (let otherErrors = filter (\<lambda>error. path error \<noteq> p) (errors refs) in
              case getErrors ts pr of
                Inl e \<Rightarrow> Inl e
              | Inr es \<Rightarrow>
                  Inr (refs\<lparr>errors := otherErrors @ filter (\<lambda>error. path error = p) es\<rparr>))
         | None \<Rightarrow>
             (case getErrors ts pr of
                Inl e \<Rightarrow> Inl e
              | Inr es \<Rightarrow> Inr (refs\<lparr>errors := es\<rparr>)))
      in case assigned of
           Inl e \<Rightarrow> (refs, Inl e)
         | Inr refs' \<Rightarrow>
             if silent opts \<noteq> Some True \<and> errors refs' \<noteq> []
             then (refs', Inl (FormException (errors refs')))
             else (refs', Inr (state pr)))"

subsection \<open>The bus listener and the submit handler\<close>

definition on_event ::
  "('n \<Rightarrow> string) \<Rightarrow> ('s, 'n, 'x) props \<Rightarrow> FormEvent \<Rightarrow> form_refs \<Rightarrow>
   form_refs \<times> (('n, 'x) exn + unit)" where
  "on_event ts pr event refs =
     (if etype event \<noteq> Submit \<and> validateOn_includes pr (etype event)
      then (case validate ts pr (Some (epath event)) \<lparr>silent = Some True\<rparr> refs of
              (refs', Inl e) \<Rightarrow> (refs', Inl e)
            | (refs', Inr s) \<Rightarrow> (refs', Inr ()))
      else (refs, Inr ()))"

text \<open>
  \<open>inputs\<close> is \<open>ref({})\<close>, a plain object: \<open>inputs.value[key]\<close> is the own property of
  that name when an input is registered there, otherwise the member of \<open>Object.prototype\<close>
  of that name when there is one, otherwise \<open>undefined\<close>. The members are those of
  ECMAScript, Annex B included; each is a function or, for \<open>__proto__\<close>, an object. The
  field \<open>inputs\<close> of the refs holds the own properties. The read is that of the object
  itself: the key names that the reactive wrapper of Vue keeps for its own flags
  (\<open>__v_isReactive\<close> and the like) are not field paths and are not treated apart.
\<close>

definition object_prototype_members :: "string list" where
  "object_prototype_members =
     [''constructor'', ''hasOwnProperty'', ''isPrototypeOf'', ''propertyIsEnumerable'',
      ''toLocaleString'', ''toString'', ''valueOf'', ''__proto__'', ''__defineGetter__'',
      ''__defineSetter__'', ''__lookupGetter__'', ''__lookupSetter__'']"

definition get_property :: "(string \<rightharpoonup> string) \<Rightarrow> string \<Rightarrow> jsval" where
  "get_property obj k =
     (case obj k of
        Some v \<Rightarrow> JStr v
      | None \<Rightarrow> if k \<in> set object_prototype_members then JObject else JUndefined)"

record FormErrorWithId = FormError +
  input_id :: jsval

text \<open>
  What \<open>onSubmit\<close> emits. The properties spread from the DOM event are left out: a
  \<open>submit\<close> event carries \<open>data\<close>, an \<open>error\<close> event carries \<open>errors\<close>. \<open>emit\<close> itself
  is taken not to throw.
\<close>

datatype 's emitted = EmitSubmit 's | EmitError "FormErrorWithId list"

definition with_id :: "form_refs \<Rightarrow> FormError \<Rightarrow> FormErrorWithId" where
  "with_id refs err =
     \<lparr>path = path err, message = message err,
      input_id = get_property (inputs refs) (path err)\<rparr>"

definition onSubmit ::
  "('n \<Rightarrow> string) \<Rightarrow> ('s, 'n, 'x) props \<Rightarrow> form_refs \<Rightarrow>
   form_refs \<times> 's emitted list \<times> (('n, 'x) exn + unit)" where
  "onSubmit ts pr refs =
     (let (refs', tried) =
        (if validateOn_includes pr Submit then validate ts pr None default_opts refs
         else (refs, Inr (state pr)))
      in case tried of
           Inr s \<Rightarrow> (refs', [EmitSubmit (state pr)], Inr ())
         | Inl error \<Rightarrow>
             (case error of
                FormException es \<Rightarrow> (refs', [EmitError (map (with_id refs') (errors refs'))], Inr ())
              | _ \<Rightarrow> (refs', [], Inl error)))"

subsection \<open>The exposed methods\<close>

definition setErrors :: "FormError list \<Rightarrow> string option \<Rightarrow> form_refs \<Rightarrow> form_refs" where
  "setErrors errs pth refs =
     (let refs1 = refs\<lparr>errors := errs\<rparr> in
      case if_path pth of
        Some p \<Rightarrow> refs1\<lparr>errors := filter (\<lambda>error. path error \<noteq> p) (errors refs1) @ errs\<rparr>
      | None \<Rightarrow> refs1\<lparr>errors := errs\<rparr>)"

definition exposed_getErrors :: "string option \<Rightarrow> form_refs \<Rightarrow> FormError list" where
  "exposed_getErrors pth refs =
     (case if_path pth of
        Some p \<Rightarrow> filter (\<lambda>err. path err = p) (errors refs)
      | None \<Rightarrow> errors refs)"

definition clear :: "string option \<Rightarrow> form_refs \<Rightarrow> form_refs" where
  "clear pth refs =
     (case if_path pth of
        Some p \<Rightarrow> refs\<lparr>errors := filter (\<lambda>err. path err = p) (errors refs)\<rparr>
      | None \<Rightarrow> refs\<lparr>errors := []\<rparr>)"

subsection \<open>The dot-joined path, in the words of the specification\<close>

text \<open>
  The specification gives the path of a normalized error as the segments of the issue's
  path joined with \<open>.\<close>, and the empty string when the issue has no segments. The two
  definitions below follow those words, on the segments as strings; the adapters above use
  \<open>join\<close>.
\<close>

definition spec_dot_joined :: "string list \<Rightarrow> string" where
  "spec_dot_joined segments =
     (case segments of [] \<Rightarrow> [] | s # rest \<Rightarrow> s @ concat (map (\<lambda>t. ''.'' @ t) rest))"

definition spec_field_error :: "string list \<Rightarrow> string \<Rightarrow> FormError" where
  "spec_field_error segments msg = \<lparr>path = spec_dot_joined segments, message = msg\<rparr>"

subsection \<open>A form to run the model on\<close>

text \<open>
  The form state is one string. The native entry points reject the empty string with issues
  of their own kind, throw an unrelated error on \<open>boom\<close> and accept every other state; the
  imperative validator has an error for the empty string and one, at the path
  \<open>constructor\<close>, for \<open>ctor\<close>.
  \<open>every_kind\<close> has the properties of all four schema kinds; the others drop one
  property after the other, down to \<open>no_kind\<close>, which no detector recognises.
\<close>

text \<open>Three numbers and what \<open>ToString\<close> makes of them.\<close>

datatype ex_number = Ten | Half | Sextillion

fun ex_number_string :: "ex_number \<Rightarrow> string" where
  "ex_number_string Ten = ''10''"
| "ex_number_string Half = ''0.5''"
| "ex_number_string Sextillion = ''1e+21''"

definition ex_other_error :: "(ex_number, string) thrown" where
  "ex_other_error = \<lparr>inner = None, isJoi = JUndefined, details = None, other = ''network down''\<rparr>"

definition ex_yup_error :: "(ex_number, string) thrown" where
  "ex_yup_error =
     \<lparr>inner = Some [\<lparr>yup_path = Some ''email'', yup_message = ''yup: required''\<rparr>,
                    \<lparr>yup_path = None, yup_message = ''yup: invalid form''\<rparr>],
      isJoi = JUndefined, details = None, other = ''ValidationError''\<rparr>"

definition ex_joi_error :: "(ex_number, string) thrown" where
  "ex_joi_error =
     \<lparr>inner = None, isJoi = JBool True,
      details = Some [\<lparr>joi_path = [Key ''items'', Num Ten, Key ''email''],
                       joi_message = ''joi: required''\<rparr>],
      other = ''ValidationError''\<rparr>"

definition ex_zod_issues :: "ex_number zod_issue list" where
  "ex_zod_issues =
     [\<lparr>zod_path = [Key ''user'', Key ''email''], zod_message = ''zod: required''\<rparr>,
      \<lparr>zod_path = [], zod_message = ''zod: invalid form''\<rparr>]"

definition ex_valibot_issues :: "ex_number valibot_issue list" where
  "ex_valibot_issues =
     [\<lparr>valibot_path = Some [\<lparr>item_key = Key ''email''\<rparr>], valibot_message = ''valibot: required''\<rparr>,
      \<lparr>valibot_path = None, valibot_message = ''valibot: invalid form''\<rparr>]"

definition ex_safeParseAsync :: "string \<Rightarrow> (ex_number, string) thrown + ex_number zod_result" where
  "ex_safeParseAsync s =
     (if s = [] then Inr (ZodFailure ex_zod_issues)
      else if s = ''boom'' then Inl ex_other_error else Inr ZodSuccess)"

definition ex_validate :: "string \<Rightarrow> (ex_number, string) thrown + unit" where
  "ex_validate s =
     (if s = [] then Inl ex_yup_error
      else if s = ''boom'' then Inl ex_other_error else Inr ())"

definition ex_validateAsync :: "string \<Rightarrow> (ex_number, string) thrown + unit" where
  "ex_validateAsync s =
     (if s = [] then Inl ex_joi_error
      else if s = ''boom'' then Inl ex_other_error else Inr ())"

definition ex_parse :: "string \<Rightarrow> (ex_number, string) thrown + ex_number valibot_result" where
  "ex_parse s =
     (if s = [] then Inr \<lparr>issues = Some ex_valibot_issues\<rparr>
      else if s = ''boom'' then Inl ex_other_error else Inr \<lparr>issues = None\<rparr>)"

definition every_kind :: "(string, ex_number, string) schema" where
  "every_kind =
     \<lparr>parse = JObject, safeParseAsync = Callable ex_safeParseAsync,
      validate_method = Callable ex_validate, isYupSchema_marker = JBool True,
      validateAsync = Callable ex_validateAsync, schema_id = JStr ''schema'',
      parse_internal = Callable ex_parse\<rparr>"

definition yup_kind :: "(string, ex_number, string) schema" where
  "yup_kind = every_kind\<lparr>parse := JUndefined\<rparr>"

definition joi_kind :: "(string, ex_number, string) schema" where
  "joi_kind = yup_kind\<lparr>isYupSchema_marker := JUndefined\<rparr>"

definition valibot_kind :: "(string, ex_number, string) schema" where
  "valibot_kind = joi_kind\<lparr>schema_id := JUndefined\<rparr>"

definition no_kind :: "(string, ex_number, string) schema" where
  "no_kind = valibot_kind\<lparr>parse_internal := NotCallable JUndefined\<rparr>"

definition ex_validator :: "string \<Rightarrow> (ex_number, string) thrown + FormError list" where
  "ex_validator s =
     (if s = [] then Inr [\<lparr>path = ''email'', message = ''is empty''\<rparr>]
      else if s = ''ctor'' then Inr [\<lparr>path = ''constructor'', message = ''is reserved''\<rparr>]
      else Inr [])"

definition ex_form :: "(string, ex_number, string) schema option \<Rightarrow> string \<Rightarrow> (string, ex_number, string) props" where
  "ex_form sch s =
     \<lparr>schema = sch, state = s, validate_prop = ex_validator,
      validateOn = default_validateOn, disabled = False\<rparr>"

definition ex_refs :: form_refs where
  "ex_refs =
     \<lparr>errors = [\<lparr>path = ''name'', message = ''too short''\<rparr>,
                \<lparr>path = ''email'', message = ''stale''\<rparr>],
      inputs = [''email'' \<mapsto> ''input-1'', ''user.email'' \<mapsto> ''input-2'']\<rparr>"

text \<open>
  A Yup schema whose one issue is at the field \<open>email\<close> of the element 10 of \<open>items\<close>, which
  Yup names \<open>items[10].email\<close>; and the numbers of the three kinds in a Zod path.
\<close>

definition ex_nested_validate :: "string \<Rightarrow> (ex_number, string) thrown + unit" where
  "ex_nested_validate s =
     Inl \<lparr>inner = Some [\<lparr>yup_path = Some ''items[10].email'', yup_message = ''yup: required''\<rparr>],
          isJoi = JUndefined, details = None, other = ''ValidationError''\<rparr>"

definition nested_yup_kind :: "(string, ex_number, string) schema" where
  "nested_yup_kind = yup_kind\<lparr>validate_method := Callable ex_nested_validate\<rparr>"

definition ex_numbers_parse :: "string \<Rightarrow> (ex_number, string) thrown + ex_number zod_result" where
  "ex_numbers_parse s =
     Inr (ZodFailure [\<lparr>zod_path = [Key ''rows'', Num Sextillion, Num Half],
                       zod_message = ''zod: out of range''\<rparr>])"

definition numbers_zod_kind :: "(string, ex_number, string) schema" where
  "numbers_zod_kind = every_kind\<lparr>safeParseAsync := Callable ex_numbers_parse\<rparr>"

section \<open>Properties\<close>

subsection \<open>The exposed \<open>clear\<close> and \<open>setErrors\<close>\<close>

lemma clear_without_path: "errors (clear None refs) = []"
  by (simp add: clear_def)

lemma clear_empty_path: "errors (clear (Some []) refs) = []"
  by (simp add: clear_def)

lemma clear_with_path:
  "p \<noteq> [] \<Longrightarrow> errors (clear (Some p) refs) = filter (\<lambda>err. path err = p) (errors refs)"
  by (simp add: clear_def)

text \<open>
  C1. The claim: \<open>clear()\<close> empties the collection, and \<open>clear(p)\<close> removes exactly the
  entries whose path is \<open>p\<close> and leaves the others. The code does the first; for a path it
  filters with \<open>===\<close> where \<open>setErrors\<close> and \<open>validate\<close> filter with \<open>!==\<close>, so it keeps
  the entries of \<open>p\<close> and removes all others. On the collection with one entry at
  \<open>a\<close> and one at \<open>b\<close>, \<open>clear('a')\<close> leaves the entry at \<open>a\<close>, where the claim asks for
  the entry at \<open>b\<close>.
\<close>

theorem clear_path_keeps_the_wrong_entries:
  "errors (clear (Some ''a'')
     \<lparr>errors = [\<lparr>path = ''a'', message = ''required''\<rparr>,
                \<lparr>path = ''b'', message = ''too short''\<rparr>],
      inputs = Map.empty\<rparr>)
   = [\<lparr>path = ''a'', message = ''required''\<rparr>]
   \<and> filter (\<lambda>err. path err \<noteq> ''a'')
       [\<lparr>path = ''a'', message = ''required''\<rparr>, \<lparr>path = ''b'', message = ''too short''\<rparr>]
     = [\<lparr>path = ''b'', message = ''too short''\<rparr>]"
  by (simp add: clear_def)

lemma setErrors_without_path: "errors (setErrors errs None refs) = errs"
  by (simp add: setErrors_def)

lemma setErrors_with_path:
  "p \<noteq> [] \<Longrightarrow>
   errors (setErrors errs (Some p) refs) = filter (\<lambda>error. path error \<noteq> p) errs @ errs"
  by (simp add: setErrors_def)

lemma setErrors_then_getErrors:
  "p \<noteq> [] \<Longrightarrow>
   exposed_getErrors (Some p) (setErrors errs (Some p) refs) = filter (\<lambda>err. path err = p) errs"
  by (simp add: setErrors_def exposed_getErrors_def)

text \<open>
  C2. The claim: \<open>setErrors(E, p)\<close> replaces the entries of path \<open>p\<close> only, the entries of
  every other path staying those of the prior collection, and \<open>setErrors(E)\<close> replaces the
  whole collection. The code does the second. For a path it first assigns \<open>E\<close> to the
  collection and then filters that, so the prior collection is gone before it is read: with
  a prior entry at \<open>b\<close>, \<open>setErrors([a: taken], 'a')\<close> leaves no entry at \<open>b\<close>.
\<close>

theorem setErrors_path_drops_the_other_paths:
  "errors (setErrors [\<lparr>path = ''a'', message = ''taken''\<rparr>] (Some ''a'')
     \<lparr>errors = [\<lparr>path = ''b'', message = ''too short''\<rparr>], inputs = Map.empty\<rparr>)
   = [\<lparr>path = ''a'', message = ''taken''\<rparr>]
   \<and> exposed_getErrors (Some ''b'')
       (setErrors [\<lparr>path = ''a'', message = ''taken''\<rparr>] (Some ''a'')
         \<lparr>errors = [\<lparr>path = ''b'', message = ''too short''\<rparr>], inputs = Map.empty\<rparr>)
     = []
   \<and> exposed_getErrors (Some ''b'')
       \<lparr>errors = [\<lparr>path = ''b'', message = ''too short''\<rparr>], inputs = Map.empty\<rparr>
     = [\<lparr>path = ''b'', message = ''too short''\<rparr>]"
  by (simp add: setErrors_def exposed_getErrors_def)

subsection \<open>What the orchestrator throws and assigns\<close>

lemma call_method_not_FormException: "call_method m s \<noteq> Inl (FormException es)"
  by (simp add: call_method_def split: member.splits sum.splits)

lemma getZodErrors_not_FormException: "getZodErrors ts s sch \<noteq> Inl (FormException es)"
  using call_method_not_FormException [of "safeParseAsync sch" s es]
  by (auto simp: getZodErrors_def split: sum.splits zod_result.splits)

lemma getYupErrors_not_FormException: "getYupErrors s sch \<noteq> Inl (FormException es)"
  using call_method_not_FormException [of "validate_method sch" s es]
  by (auto simp: getYupErrors_def split: sum.splits option.splits)

lemma getJoiErrors_not_FormException: "getJoiErrors ts s sch \<noteq> Inl (FormException es)"
  using call_method_not_FormException [of "validateAsync sch" s es]
  by (auto simp: getJoiErrors_def split: sum.splits option.splits)

lemma getValibotError_not_FormException: "getValibotError ts s sch \<noteq> Inl (FormException es)"
  using call_method_not_FormException [of "parse_internal sch" s es]
  by (auto simp: getValibotError_def split: sum.splits option.splits)

lemma concat_errors_not_FormException:
  "r \<noteq> Inl (FormException es) \<Longrightarrow> concat_errors errs r \<noteq> Inl (FormException es)"
  by (cases r) (simp_all add: concat_errors_def)

lemma getErrors_not_FormException: "getErrors ts pr \<noteq> Inl (FormException es)"
  by (simp add: getErrors_def concat_errors_not_FormException getZodErrors_not_FormException
      getYupErrors_not_FormException getJoiErrors_not_FormException
      getValibotError_not_FormException split: sum.splits option.splits)

lemma getErrors_dispatch:
  "validate_prop pr (state pr) = Inr errs \<Longrightarrow> schema pr = Some sch \<Longrightarrow>
   getErrors ts pr =
     (if isZodSchema sch then concat_errors errs (getZodErrors ts (state pr) sch)
      else if isYupSchema sch then concat_errors errs (getYupErrors (state pr) sch)
      else if isJoiSchema sch then concat_errors errs (getJoiErrors ts (state pr) sch)
      else if isValibotSchema sch then concat_errors errs (getValibotError ts (state pr) sch)
      else Inl UnsupportedSchema)"
  by (simp add: getErrors_def)

lemma validate_rejected:
  "getErrors ts pr = Inl e \<Longrightarrow> validate ts pr pth opts refs = (refs, Inl e)"
  by (simp add: validate_def split: option.splits)

lemma validate_whole:
  "getErrors ts pr = Inr es \<Longrightarrow> if_path pth = None \<Longrightarrow>
   validate ts pr pth opts refs =
     (refs\<lparr>errors := es\<rparr>,
      if silent opts \<noteq> Some True \<and> es \<noteq> [] then Inl (FormException es) else Inr (state pr))"
  by (simp add: validate_def)

lemma validate_field:
  "getErrors ts pr = Inr es \<Longrightarrow> if_path pth = Some p \<Longrightarrow>
   validate ts pr pth opts refs =
     (refs\<lparr>errors := filter (\<lambda>error. path error \<noteq> p) (errors refs) @
                        filter (\<lambda>error. path error = p) es\<rparr>,
      if silent opts \<noteq> Some True \<and>
         filter (\<lambda>error. path error \<noteq> p) (errors refs) @ filter (\<lambda>error. path error = p) es \<noteq> []
      then Inl (FormException
             (filter (\<lambda>error. path error \<noteq> p) (errors refs) @ filter (\<lambda>error. path error = p) es))
      else Inr (state pr))"
  by (simp add: validate_def Let_def)

lemma validate_not_FormException_silent:
  "silent opts = Some True \<Longrightarrow> snd (validate ts pr pth opts refs) \<noteq> Inl (FormException m)"
proof (cases "getErrors ts pr")
  case (Inl e)
  then show ?thesis
    using getErrors_not_FormException [of ts pr m] by (auto simp: validate_rejected)
next
  case (Inr es)
  assume "silent opts = Some True"
  then show ?thesis
    using Inr by (cases "if_path pth") (simp_all add: validate_whole validate_field)
qed

lemma onSubmit_rejected:
  "validateOn_includes pr Submit \<Longrightarrow> getErrors ts pr = Inl e \<Longrightarrow> onSubmit ts pr refs = (refs, [], Inl e)"
  using getErrors_not_FormException [of ts pr]
  by (cases e) (auto simp: onSubmit_def validate_rejected)

lemma default_validateOn_all: "validateOn pr = default_validateOn \<Longrightarrow> validateOn_includes pr t"
  by (cases t) (simp_all add: validateOn_includes_def default_validateOn_def)

subsection \<open>The example form, evaluated\<close>

lemmas adapter_defs = getErrors_def concat_errors_def isZodSchema_def isYupSchema_def
  isJoiSchema_def isValibotSchema_def getZodErrors_def getYupErrors_def getJoiErrors_def
  getValibotError_def call_method_def isYupError_def isJoiError_def valibot_issue_path_def

lemmas form_defs = ex_form_def ex_validator_def every_kind_def ex_safeParseAsync_def
  ex_validate_def ex_validateAsync_def ex_parse_def ex_zod_issues_def ex_yup_error_def
  ex_joi_error_def ex_valibot_issues_def ex_other_error_def ex_refs_def

lemma ex_form_simps:
  "schema (ex_form sch s) = sch"
  "state (ex_form sch s) = s"
  "validate_prop (ex_form sch s) = ex_validator"
  "validateOn (ex_form sch s) = default_validateOn"
  by (simp_all add: ex_form_def)

lemma ex_getErrors_rejected:
  "getErrors ex_number_string (ex_form (Some every_kind) []) =
     Inr [\<lparr>path = ''email'', message = ''is empty''\<rparr>,
          \<lparr>path = ''user.email'', message = ''zod: required''\<rparr>,
          \<lparr>path = [], message = ''zod: invalid form''\<rparr>]"
  by (simp add: form_defs adapter_defs)

lemma ex_getErrors_accepted: "getErrors ex_number_string (ex_form (Some every_kind) ''ok'') = Inr []"
  by (simp add: form_defs adapter_defs)



subsection \<open>Schema detection\<close>

text \<open>
  C3. Once the imperative validator has returned, \<open>getErrors\<close> picks the adapter by the
  shape of the schema object, the first matching test winning: Zod when \<open>parse\<close> is defined;
  otherwise Yup when \<open>validate\<close> and \<open>__isYupSchema__\<close> are both truthy; otherwise Joi when
  \<open>validateAsync\<close> and \<open>id\<close> are both defined; otherwise Valibot when \<open>_parse\<close> is defined.
  A schema object of none of the four shapes makes \<open>getErrors\<close> throw the unsupported-schema
  error: \<open>validate\<close> passes it on with the error collection as it was (no empty collection,
  no FormError), and so does \<open>onSubmit\<close>, without emitting anything.
\<close>

theorem schema_detection_priority:
  "validate_prop pr (state pr) = Inr errs \<Longrightarrow> schema pr = Some sch \<Longrightarrow>
   (parse sch \<noteq> JUndefined \<longrightarrow>
      isZodSchema sch \<and>
      getErrors ts pr = concat_errors errs (getZodErrors ts (state pr) sch)) \<and>
   (parse sch = JUndefined \<and>
    member_truthy (validate_method sch) \<and> truthy (isYupSchema_marker sch) \<longrightarrow>
      \<not> isZodSchema sch \<and> isYupSchema sch \<and>
      getErrors ts pr = concat_errors errs (getYupErrors (state pr) sch)) \<and>
   (parse sch = JUndefined \<and>
    \<not> (member_truthy (validate_method sch) \<and> truthy (isYupSchema_marker sch)) \<and>
    member_defined (validateAsync sch) \<and> schema_id sch \<noteq> JUndefined \<longrightarrow>
      \<not> isZodSchema sch \<and> \<not> isYupSchema sch \<and> isJoiSchema sch \<and>
      getErrors ts pr = concat_errors errs (getJoiErrors ts (state pr) sch)) \<and>
   (parse sch = JUndefined \<and>
    \<not> (member_truthy (validate_method sch) \<and> truthy (isYupSchema_marker sch)) \<and>
    \<not> (member_defined (validateAsync sch) \<and> schema_id sch \<noteq> JUndefined) \<and>
    member_defined (parse_internal sch) \<longrightarrow>
      \<not> isZodSchema sch \<and> \<not> isYupSchema sch \<and> \<not> isJoiSchema sch \<and> isValibotSchema sch \<and>
      getErrors ts pr = concat_errors errs (getValibotError ts (state pr) sch)) \<and>
   (parse sch = JUndefined \<and>
    \<not> (member_truthy (validate_method sch) \<and> truthy (isYupSchema_marker sch)) \<and>
    \<not> (member_defined (validateAsync sch) \<and> schema_id sch \<noteq> JUndefined) \<and>
    \<not> member_defined (parse_internal sch) \<longrightarrow>
      getErrors ts pr = Inl UnsupportedSchema \<and>
      validate ts pr pth opts refs = (refs, Inl UnsupportedSchema) \<and>
      (validateOn_includes pr Submit \<longrightarrow> onSubmit ts pr refs = (refs, [], Inl UnsupportedSchema)))"
proof -
  assume v: "validate_prop pr (state pr) = Inr errs" and s: "schema pr = Some sch"
  note dispatch = getErrors_dispatch [OF v s]
  have zod: "parse sch \<noteq> JUndefined \<longrightarrow>
      isZodSchema sch \<and>
      getErrors ts pr = concat_errors errs (getZodErrors ts (state pr) sch)"
    by (simp add: dispatch isZodSchema_def)
  have yup: "parse sch = JUndefined \<and>
      member_truthy (validate_method sch) \<and> truthy (isYupSchema_marker sch) \<longrightarrow>
      \<not> isZodSchema sch \<and> isYupSchema sch \<and>
      getErrors ts pr = concat_errors errs (getYupErrors (state pr) sch)"
    by (simp add: dispatch isZodSchema_def isYupSchema_def)
  have joi: "parse sch = JUndefined \<and>
      \<not> (member_truthy (validate_method sch) \<and> truthy (isYupSchema_marker sch)) \<and>
      member_defined (validateAsync sch) \<and> schema_id sch \<noteq> JUndefined \<longrightarrow>
      \<not> isZodSchema sch \<and> \<not> isYupSchema sch \<and> isJoiSchema sch \<and>
      getErrors ts pr = concat_errors errs (getJoiErrors ts (state pr) sch)"
    by (simp add: dispatch isZodSchema_def isYupSchema_def isJoiSchema_def)
  have valibot: "parse sch = JUndefined \<and>
      \<not> (member_truthy (validate_method sch) \<and> truthy (isYupSchema_marker sch)) \<and>
      \<not> (member_defined (validateAsync sch) \<and> schema_id sch \<noteq> JUndefined) \<and>
      member_defined (parse_internal sch) \<longrightarrow>
      \<not> isZodSchema sch \<and> \<not> isYupSchema sch \<and> \<not> isJoiSchema sch \<and> isValibotSchema sch \<and>
      getErrors ts pr = concat_errors errs (getValibotError ts (state pr) sch)"
    by (simp add: dispatch isZodSchema_def isYupSchema_def isJoiSchema_def isValibotSchema_def)
  have unsupported: "parse sch = JUndefined \<and>
      \<not> (member_truthy (validate_method sch) \<and> truthy (isYupSchema_marker sch)) \<and>
      \<not> (member_defined (validateAsync sch) \<and> schema_id sch \<noteq> JUndefined) \<and>
      \<not> member_defined (parse_internal sch) \<longrightarrow>
      getErrors ts pr = Inl UnsupportedSchema"
    by (simp add: dispatch isZodSchema_def isYupSchema_def isJoiSchema_def isValibotSchema_def)
  have passed: "getErrors ts pr = Inl UnsupportedSchema \<longrightarrow>
      validate ts pr pth opts refs = (refs, Inl UnsupportedSchema) \<and>
      (validateOn_includes pr Submit \<longrightarrow> onSubmit ts pr refs = (refs, [], Inl UnsupportedSchema))"
    by (simp add: validate_rejected onSubmit_rejected)
  from zod yup joi valibot unsupported passed show ?thesis by blast
qed

theorem schema_detection_priority_witness:
  "getErrors ex_number_string (ex_form (Some every_kind) []) =
     Inr [\<lparr>path = ''email'', message = ''is empty''\<rparr>,
          \<lparr>path = ''user.email'', message = ''zod: required''\<rparr>,
          \<lparr>path = [], message = ''zod: invalid form''\<rparr>] \<and>
   getErrors ex_number_string (ex_form (Some yup_kind) []) =
     Inr [\<lparr>path = ''email'', message = ''is empty''\<rparr>,
          \<lparr>path = ''email'', message = ''yup: required''\<rparr>,
          \<lparr>path = [], message = ''yup: invalid form''\<rparr>] \<and>
   getErrors ex_number_string (ex_form (Some joi_kind) []) =
     Inr [\<lparr>path = ''email'', message = ''is empty''\<rparr>,
          \<lparr>path = ''items.10.email'', message = ''joi: required''\<rparr>] \<and>
   getErrors ex_number_string (ex_form (Some valibot_kind) []) =
     Inr [\<lparr>path = ''email'', message = ''is empty''\<rparr>,
          \<lparr>path = ''email'', message = ''valibot: required''\<rparr>,
          \<lparr>path = [], message = ''valibot: invalid form''\<rparr>] \<and>
   getErrors ex_number_string (ex_form (Some no_kind) []) = Inl UnsupportedSchema \<and>
   validate ex_number_string (ex_form (Some no_kind) []) (Some ''email'') default_opts ex_refs
     = (ex_refs, Inl UnsupportedSchema) \<and>
   onSubmit ex_number_string (ex_form (Some no_kind) []) ex_refs = (ex_refs, [], Inl UnsupportedSchema)"
  using
    schema_detection_priority [where pr = "ex_form (Some every_kind) []"
      and errs = "[\<lparr>path = ''email'', message = ''is empty''\<rparr>]" and sch = every_kind
      and ts = ex_number_string and pth = "Some ''email''" and opts = default_opts and refs = ex_refs]
    schema_detection_priority [where pr = "ex_form (Some yup_kind) []"
      and errs = "[\<lparr>path = ''email'', message = ''is empty''\<rparr>]" and sch = yup_kind
      and ts = ex_number_string and pth = "Some ''email''" and opts = default_opts and refs = ex_refs]
    schema_detection_priority [where pr = "ex_form (Some joi_kind) []"
      and errs = "[\<lparr>path = ''email'', message = ''is empty''\<rparr>]" and sch = joi_kind
      and ts = ex_number_string and pth = "Some ''email''" and opts = default_opts and refs = ex_refs]
    schema_detection_priority [where pr = "ex_form (Some valibot_kind) []"
      and errs = "[\<lparr>path = ''email'', message = ''is empty''\<rparr>]" and sch = valibot_kind
      and ts = ex_number_string and pth = "Some ''email''" and opts = default_opts and refs = ex_refs]
    schema_detection_priority [where pr = "ex_form (Some no_kind) []"
      and errs = "[\<lparr>path = ''email'', message = ''is empty''\<rparr>]" and sch = no_kind
      and ts = ex_number_string and pth = "Some ''email''" and opts = default_opts and refs = ex_refs]
  by (simp add: ex_form_def ex_validator_def every_kind_def yup_kind_def joi_kind_def
      valibot_kind_def no_kind_def ex_safeParseAsync_def ex_validate_def ex_validateAsync_def
      ex_parse_def ex_zod_issues_def ex_yup_error_def ex_joi_error_def ex_valibot_issues_def
      isZodSchema_def isYupSchema_def isJoiSchema_def isValibotSchema_def concat_errors_def
      getZodErrors_def getYupErrors_def getJoiErrors_def getValibotError_def call_method_def
      isYupError_def isJoiError_def valibot_issue_path_def validateOn_includes_def
      default_validateOn_def)

subsection \<open>Normalization of native issues\<close>

lemma join_is_dot_joined: "join ''.'' ss = spec_dot_joined ss"
  by (induction "''.''" ss rule: join.induct) (simp_all add: spec_dot_joined_def)

lemma valibot_issue_path_eq:
  "valibot_issue_path ts issue =
     (case valibot_path issue of
        None \<Rightarrow> spec_dot_joined []
      | Some items \<Rightarrow> spec_dot_joined (map (\<lambda>p. seg_string ts (item_key p)) items))"
  by (simp add: valibot_issue_path_def join_is_dot_joined spec_dot_joined_def Let_def split: option.splits)

text \<open>
  C4, as amended. For every form state: when the native entry point accepts the state the
  adapter returns the empty sequence; when it rejects the state the adapter returns one
  FormError per native issue, in order, with the native message unchanged. For Zod, Joi
  and Valibot the path is made of the issue's path segments joined with \<open>.\<close> (the empty
  string when there are none), a segment that is not a string standing as the runtime's
  \<open>ToString\<close> renders it. For Yup, whose issue carries its path as one string in Yup's own
  notation, or none, the path is that string unchanged, and the empty string for none.
  Zod rejects by returning \<open>success = false\<close> with issues, Valibot by returning issues,
  Yup by throwing an error with \<open>inner\<close>, Joi by throwing an error with \<open>isJoi = true\<close> and
  \<open>details\<close>.
\<close>

theorem normalize_one_error_per_issue:
  "(safeParseAsync sch = Callable zf \<longrightarrow>
      (zf st = Inr ZodSuccess \<longrightarrow> getZodErrors ts st sch = Inr []) \<and>
      (zf st = Inr (ZodFailure zs) \<longrightarrow>
         getZodErrors ts st sch =
           Inr (map (\<lambda>i. spec_field_error (map (seg_string ts) (zod_path i)) (zod_message i)) zs))) \<and>
   (validate_method sch = Callable yf \<longrightarrow>
      (yf st = Inr () \<longrightarrow> getYupErrors st sch = Inr []) \<and>
      (yf st = Inl ye \<and> inner ye = Some ys \<longrightarrow>
         getYupErrors st sch =
           Inr (map (\<lambda>i. \<lparr>path = (case yup_path i of None \<Rightarrow> [] | Some p \<Rightarrow> p),
                            message = yup_message i\<rparr>) ys))) \<and>
   (validateAsync sch = Callable jf \<longrightarrow>
      (jf st = Inr () \<longrightarrow> getJoiErrors ts st sch = Inr []) \<and>
      (jf st = Inl je \<and> isJoi je = JBool True \<and> details je = Some ds \<longrightarrow>
         getJoiErrors ts st sch =
           Inr (map (\<lambda>d. spec_field_error (map (seg_string ts) (joi_path d)) (joi_message d)) ds))) \<and>
   (parse_internal sch = Callable vf \<longrightarrow>
      (vf st = Inr \<lparr>issues = None\<rparr> \<longrightarrow> getValibotError ts st sch = Inr []) \<and>
      (vf st = Inr \<lparr>issues = Some vs\<rparr> \<longrightarrow>
         getValibotError ts st sch =
           Inr (map (\<lambda>i. spec_field_error
                  (case valibot_path i of None \<Rightarrow> []
                   | Some items \<Rightarrow> map (\<lambda>p. seg_string ts (item_key p)) items)
                  (valibot_message i)) vs)))"
proof -
  have zod: "safeParseAsync sch = Callable zf \<longrightarrow>
      (zf st = Inr ZodSuccess \<longrightarrow> getZodErrors ts st sch = Inr []) \<and>
      (zf st = Inr (ZodFailure zs) \<longrightarrow>
         getZodErrors ts st sch =
           Inr (map (\<lambda>i. spec_field_error (map (seg_string ts) (zod_path i)) (zod_message i)) zs))"
    by (simp add: getZodErrors_def call_method_def spec_field_error_def join_is_dot_joined)
  have yup: "validate_method sch = Callable yf \<longrightarrow>
      (yf st = Inr () \<longrightarrow> getYupErrors st sch = Inr []) \<and>
      (yf st = Inl ye \<and> inner ye = Some ys \<longrightarrow>
         getYupErrors st sch =
           Inr (map (\<lambda>i. \<lparr>path = (case yup_path i of None \<Rightarrow> [] | Some p \<Rightarrow> p),
                            message = yup_message i\<rparr>) ys))"
    by (simp add: getYupErrors_def call_method_def isYupError_def)
  have joi: "validateAsync sch = Callable jf \<longrightarrow>
      (jf st = Inr () \<longrightarrow> getJoiErrors ts st sch = Inr []) \<and>
      (jf st = Inl je \<and> isJoi je = JBool True \<and> details je = Some ds \<longrightarrow>
         getJoiErrors ts st sch =
           Inr (map (\<lambda>d. spec_field_error (map (seg_string ts) (joi_path d)) (joi_message d)) ds))"
    by (simp add: getJoiErrors_def call_method_def isJoiError_def spec_field_error_def join_is_dot_joined)
  have valibot_map: "\<And>i. \<lparr>path = valibot_issue_path ts i, message = valibot_message i\<rparr> =
      spec_field_error (case valibot_path i of None \<Rightarrow> []
                   | Some items \<Rightarrow> map (\<lambda>p. seg_string ts (item_key p)) items) (valibot_message i)"
    by (simp add: valibot_issue_path_eq spec_field_error_def split: option.splits)
  have valibot: "parse_internal sch = Callable vf \<longrightarrow>
      (vf st = Inr \<lparr>issues = None\<rparr> \<longrightarrow> getValibotError ts st sch = Inr []) \<and>
      (vf st = Inr \<lparr>issues = Some vs\<rparr> \<longrightarrow>
         getValibotError ts st sch =
           Inr (map (\<lambda>i. spec_field_error
                  (case valibot_path i of None \<Rightarrow> []
                   | Some items \<Rightarrow> map (\<lambda>p. seg_string ts (item_key p)) items)
                  (valibot_message i)) vs))"
    by (simp add: getValibotError_def call_method_def valibot_map)
  from zod yup joi valibot show ?thesis by blast
qed

theorem normalize_one_error_per_issue_witness:
  "getZodErrors ex_number_string [] every_kind =
     Inr [\<lparr>path = ''user.email'', message = ''zod: required''\<rparr>,
          \<lparr>path = [], message = ''zod: invalid form''\<rparr>] \<and>
   getYupErrors [] every_kind =
     Inr [\<lparr>path = ''email'', message = ''yup: required''\<rparr>,
          \<lparr>path = [], message = ''yup: invalid form''\<rparr>] \<and>
   getJoiErrors ex_number_string [] every_kind =
     Inr [\<lparr>path = ''items.10.email'', message = ''joi: required''\<rparr>] \<and>
   getValibotError ex_number_string [] every_kind =
     Inr [\<lparr>path = ''email'', message = ''valibot: required''\<rparr>,
          \<lparr>path = [], message = ''valibot: invalid form''\<rparr>] \<and>
   getZodErrors ex_number_string [] numbers_zod_kind =
     Inr [\<lparr>path = ''rows.1e+21.0.5'', message = ''zod: out of range''\<rparr>] \<and>
   getYupErrors [] nested_yup_kind =
     Inr [\<lparr>path = ''items[10].email'', message = ''yup: required''\<rparr>] \<and>
   getZodErrors ex_number_string ''ok'' every_kind = Inr [] \<and>
   getYupErrors ''ok'' every_kind = Inr [] \<and>
   getJoiErrors ex_number_string ''ok'' every_kind = Inr [] \<and>
   getValibotError ex_number_string ''ok'' every_kind = Inr []"
  using
    normalize_one_error_per_issue [where sch = every_kind and ts = ex_number_string
      and st = "[]" and zf = ex_safeParseAsync and zs = ex_zod_issues
      and yf = ex_validate and ye = ex_yup_error
      and ys = "[\<lparr>yup_path = Some ''email'', yup_message = ''yup: required''\<rparr>,
                 \<lparr>yup_path = None, yup_message = ''yup: invalid form''\<rparr>]"
      and jf = ex_validateAsync and je = ex_joi_error
      and ds = "[\<lparr>joi_path = [Key ''items'', Num Ten, Key ''email''],
                  joi_message = ''joi: required''\<rparr>]"
      and vf = ex_parse and vs = ex_valibot_issues]
    normalize_one_error_per_issue [where sch = numbers_zod_kind and ts = ex_number_string
      and st = "[]" and zf = ex_numbers_parse
      and zs = "[\<lparr>zod_path = [Key ''rows'', Num Sextillion, Num Half],
                  zod_message = ''zod: out of range''\<rparr>]"
      and yf = ex_validate and ye = ex_yup_error and ys = "[]"
      and jf = ex_validateAsync and je = ex_joi_error and ds = "[]"
      and vf = ex_parse and vs = ex_valibot_issues]
    normalize_one_error_per_issue [where sch = nested_yup_kind and ts = ex_number_string
      and st = "[]" and zf = ex_safeParseAsync and zs = ex_zod_issues
      and yf = ex_nested_validate
      and ye = "\<lparr>inner = Some [\<lparr>yup_path = Some ''items[10].email'',
                                   yup_message = ''yup: required''\<rparr>],
                 isJoi = JUndefined, details = None, other = ''ValidationError''\<rparr>"
      and ys = "[\<lparr>yup_path = Some ''items[10].email'', yup_message = ''yup: required''\<rparr>]"
      and jf = ex_validateAsync and je = ex_joi_error and ds = "[]"
      and vf = ex_parse and vs = ex_valibot_issues]
    normalize_one_error_per_issue [where sch = every_kind and ts = ex_number_string
      and st = "''ok''" and zf = ex_safeParseAsync and zs = ex_zod_issues
      and yf = ex_validate and ye = ex_yup_error and ys = "[]"
      and jf = ex_validateAsync and je = ex_joi_error and ds = "[]"
      and vf = ex_parse and vs = ex_valibot_issues]
  by (simp add: every_kind_def yup_kind_def nested_yup_kind_def numbers_zod_kind_def
      ex_safeParseAsync_def ex_validate_def ex_validateAsync_def ex_parse_def
      ex_nested_validate_def ex_numbers_parse_def ex_zod_issues_def ex_yup_error_def
      ex_joi_error_def ex_valibot_issues_def spec_field_error_def spec_dot_joined_def)

text \<open>
  The claim C4 as stated, the dot-joined segments for every kind, fails for Yup. Yup names
  the field \<open>email\<close> of the element 10 of \<open>items\<close> as \<open>items[10].email\<close>, and the adapter
  passes that string on; the segments \<open>items\<close>, \<open>10\<close>, \<open>email\<close> joined with \<open>.\<close> are
  \<open>items.10.email\<close>, which is what the Joi adapter returns for the same field.
\<close>

theorem yup_path_not_dot_joined_counterexample:
  "getYupErrors [] nested_yup_kind =
     Inr [\<lparr>path = ''items[10].email'', message = ''yup: required''\<rparr>] \<and>
   spec_field_error (map (seg_string ex_number_string) [Key ''items'', Num Ten, Key ''email''])
       ''yup: required''
     = \<lparr>path = ''items.10.email'', message = ''yup: required''\<rparr> \<and>
   getYupErrors [] nested_yup_kind \<noteq>
     Inr [spec_field_error
            (map (seg_string ex_number_string) [Key ''items'', Num Ten, Key ''email''])
            ''yup: required'']"
  by (simp add: getYupErrors_def call_method_def isYupError_def nested_yup_kind_def yup_kind_def
      every_kind_def ex_nested_validate_def spec_field_error_def spec_dot_joined_def)

subsection \<open>Whole-form validation\<close>

text \<open>
  C5. \<open>validate()\<close> with no path, not silent: it throws the FormException exactly when the
  errors were computed and are not empty; when \<open>getErrors\<close> returns \<open>es\<close>, the whole
  collection becomes \<open>es\<close> (the registered inputs are untouched), the FormException is
  thrown exactly when the resulting collection is not empty, and otherwise the call
  returns the form state of the props.
\<close>

theorem validate_all_raises_iff_errors:
  "silent opts \<noteq> Some True \<Longrightarrow>
   ((\<exists>m. snd (validate ts pr None opts refs) = Inl (FormException m)) \<longleftrightarrow>
      (\<exists>es. getErrors ts pr = Inr es \<and> es \<noteq> [])) \<and>
   (getErrors ts pr = Inr es \<longrightarrow>
      errors (fst (validate ts pr None opts refs)) = es \<and>
      inputs (fst (validate ts pr None opts refs)) = inputs refs \<and>
      ((\<exists>m. snd (validate ts pr None opts refs) = Inl (FormException m)) \<longleftrightarrow>
         errors (fst (validate ts pr None opts refs)) \<noteq> []) \<and>
      (es \<noteq> [] \<longrightarrow> snd (validate ts pr None opts refs) = Inl (FormException es)) \<and>
      (es = [] \<longrightarrow> snd (validate ts pr None opts refs) = Inr (state pr)))"
proof -
  assume loud: "silent opts \<noteq> Some True"
  have ran: "getErrors ts pr = Inr es \<Longrightarrow>
      validate ts pr None opts refs =
        (refs\<lparr>errors := es\<rparr>, if es \<noteq> [] then Inl (FormException es) else Inr (state pr))" for es
    using loud by (simp add: validate_whole)
  have first: "(\<exists>m. snd (validate ts pr None opts refs) = Inl (FormException m)) \<longleftrightarrow>
      (\<exists>es. getErrors ts pr = Inr es \<and> es \<noteq> [])"
  proof (cases "getErrors ts pr")
    case (Inl e)
    then show ?thesis
      using getErrors_not_FormException [of ts pr] by (auto simp: validate_rejected)
  next
    case (Inr es')
    then show ?thesis by (simp add: ran)
  qed
  have second: "getErrors ts pr = Inr es \<longrightarrow>
      errors (fst (validate ts pr None opts refs)) = es \<and>
      inputs (fst (validate ts pr None opts refs)) = inputs refs \<and>
      ((\<exists>m. snd (validate ts pr None opts refs) = Inl (FormException m)) \<longleftrightarrow>
         errors (fst (validate ts pr None opts refs)) \<noteq> []) \<and>
      (es \<noteq> [] \<longrightarrow> snd (validate ts pr None opts refs) = Inl (FormException es)) \<and>
      (es = [] \<longrightarrow> snd (validate ts pr None opts refs) = Inr (state pr))"
    by (simp add: ran)
  from first second show ?thesis by blast
qed

theorem validate_all_raises_iff_errors_witness:
  "errors (fst (validate ex_number_string (ex_form (Some every_kind) []) None default_opts ex_refs)) =
     [\<lparr>path = ''email'', message = ''is empty''\<rparr>,
      \<lparr>path = ''user.email'', message = ''zod: required''\<rparr>,
      \<lparr>path = [], message = ''zod: invalid form''\<rparr>] \<and>
   snd (validate ex_number_string (ex_form (Some every_kind) []) None default_opts ex_refs) =
     Inl (FormException
       [\<lparr>path = ''email'', message = ''is empty''\<rparr>,
        \<lparr>path = ''user.email'', message = ''zod: required''\<rparr>,
        \<lparr>path = [], message = ''zod: invalid form''\<rparr>]) \<and>
   errors (fst (validate ex_number_string (ex_form (Some every_kind) ''ok'') None default_opts ex_refs)) = [] \<and>
   snd (validate ex_number_string (ex_form (Some every_kind) ''ok'') None default_opts ex_refs) = Inr ''ok''"
  using
    validate_all_raises_iff_errors [where ts = ex_number_string and opts = default_opts
      and pr = "ex_form (Some every_kind) []" and refs = ex_refs
      and es = "[\<lparr>path = ''email'', message = ''is empty''\<rparr>,
                 \<lparr>path = ''user.email'', message = ''zod: required''\<rparr>,
                 \<lparr>path = [], message = ''zod: invalid form''\<rparr>]"]
    validate_all_raises_iff_errors [where ts = ex_number_string and opts = default_opts
      and pr = "ex_form (Some every_kind) ''ok''" and refs = ex_refs and es = "[]"]
  by (simp add: ex_getErrors_rejected ex_getErrors_accepted default_opts_def ex_form_simps)

subsection \<open>Per-field validation\<close>

lemma filter_other_path:
  "q \<noteq> p \<Longrightarrow>
   filter (\<lambda>e. path e = q) (filter (\<lambda>error. path error \<noteq> p) xs @ filter (\<lambda>error. path error = p) ys)
     = filter (\<lambda>e. path e = q) xs"
  by (induction ys) (auto intro: filter_cong)

lemma filter_not_path:
  "filter (\<lambda>e. path e \<noteq> p) (filter (\<lambda>error. path error \<noteq> p) xs @ filter (\<lambda>error. path error = p) ys)
     = filter (\<lambda>e. path e \<noteq> p) xs"
  by (induction ys) auto

lemma filter_same_path:
  "filter (\<lambda>e. path e = p) (filter (\<lambda>error. path error \<noteq> p) xs @ filter (\<lambda>error. path error = p) ys)
     = filter (\<lambda>e. path e = p) ys"
  by (induction xs) auto

text \<open>
  C6, as amended. For every non-empty path \<open>p\<close>, \<open>validate(p)\<close> leaves the entries of
  every other path \<open>q\<close> as they were (and all of them in their order), whatever the
  options and whether or not \<open>getErrors\<close> throws; when \<open>getErrors\<close> returns \<open>es\<close>, the
  entries at \<open>p\<close> become those of \<open>es\<close> at \<open>p\<close>.
\<close>

theorem validate_field_frame:
  "p \<noteq> [] \<Longrightarrow>
   (q \<noteq> p \<longrightarrow>
      filter (\<lambda>e. path e = q) (errors (fst (validate ts pr (Some p) opts refs)))
        = filter (\<lambda>e. path e = q) (errors refs)) \<and>
   filter (\<lambda>e. path e \<noteq> p) (errors (fst (validate ts pr (Some p) opts refs)))
     = filter (\<lambda>e. path e \<noteq> p) (errors refs) \<and>
   (getErrors ts pr = Inr es \<longrightarrow>
      filter (\<lambda>e. path e = p) (errors (fst (validate ts pr (Some p) opts refs)))
        = filter (\<lambda>e. path e = p) es)"
proof (cases "getErrors ts pr")
  case (Inl e)
  then show ?thesis by (simp add: validate_rejected)
next
  case (Inr es')
  assume "p \<noteq> []"
  then have "if_path (Some p) = Some p" by simp
  then have "errors (fst (validate ts pr (Some p) opts refs)) =
      filter (\<lambda>error. path error \<noteq> p) (errors refs) @ filter (\<lambda>error. path error = p) es'"
    using Inr validate_field [of ts pr es' "Some p" p opts refs] by simp
  then show ?thesis
    using Inr by (simp add: filter_other_path filter_not_path filter_same_path
        del: filter_append filter_filter)
qed

theorem validate_field_frame_witness:
  "filter (\<lambda>e. path e = ''name'')
     (errors (fst (validate ex_number_string (ex_form (Some every_kind) []) (Some ''email'') default_opts ex_refs)))
     = [\<lparr>path = ''name'', message = ''too short''\<rparr>] \<and>
   filter (\<lambda>e. path e = ''email'')
     (errors (fst (validate ex_number_string (ex_form (Some every_kind) []) (Some ''email'') default_opts ex_refs)))
     = [\<lparr>path = ''email'', message = ''is empty''\<rparr>]"
  using
    validate_field_frame [where ts = ex_number_string and p = "''email''" and q = "''name''"
      and pr = "ex_form (Some every_kind) []" and opts = default_opts and refs = ex_refs
      and es = "[\<lparr>path = ''email'', message = ''is empty''\<rparr>,
                 \<lparr>path = ''user.email'', message = ''zod: required''\<rparr>,
                 \<lparr>path = [], message = ''zod: invalid form''\<rparr>]"]
  by (simp add: ex_getErrors_rejected ex_refs_def)

text \<open>
  The claim C6 as stated, for every path, fails at the empty path: \<open>if (path)\<close> is false
  for the empty string, so \<open>validate('')\<close> is whole-form validation. With an entry at
  \<open>name\<close> in the collection and a state the schema accepts, \<open>validate('')\<close> leaves no
  entry at \<open>name\<close>.
\<close>

theorem validate_empty_path_counterexample:
  "exposed_getErrors (Some ''name'') ex_refs = [\<lparr>path = ''name'', message = ''too short''\<rparr>] \<and>
   exposed_getErrors (Some ''name'')
     (fst (validate ex_number_string (ex_form (Some every_kind) ''ok'') (Some []) \<lparr>silent = Some True\<rparr> ex_refs)) = []"
  by (simp add: exposed_getErrors_def validate_def ex_getErrors_accepted ex_refs_def)

subsection \<open>Submit\<close>





subsection \<open>The bus listener\<close>

text \<open>
  C8, as amended. For every event on the bus, the listener runs
  \<open>validate(event.path, { silent: true })\<close> exactly when the type of the event is not
  \<open>submit\<close> and is among the configured triggers: the collection is then the one that
  call leaves (the entries at the event's path recomputed for a non-empty path, the whole
  collection for an empty one, unchanged when \<open>getErrors\<close> throws). A \<open>submit\<close> event and
  an event whose type is not among the triggers change nothing. The default trigger list
  holds all four types. The listener never throws the FormException.
\<close>

theorem bus_listener_revalidates:
  "(etype ev \<noteq> Submit \<and> validateOn_includes pr (etype ev) \<longrightarrow>
      fst (on_event ts pr ev refs) = fst (validate ts pr (Some (epath ev)) \<lparr>silent = Some True\<rparr> refs) \<and>
      (getErrors ts pr = Inr es \<and> epath ev \<noteq> [] \<longrightarrow>
         on_event ts pr ev refs =
           (refs\<lparr>errors := filter (\<lambda>error. path error \<noteq> epath ev) (errors refs) @
                              filter (\<lambda>error. path error = epath ev) es\<rparr>, Inr ())) \<and>
      (getErrors ts pr = Inr es \<and> epath ev = [] \<longrightarrow>
         on_event ts pr ev refs = (refs\<lparr>errors := es\<rparr>, Inr ())) \<and>
      (getErrors ts pr = Inl e \<longrightarrow> on_event ts pr ev refs = (refs, Inl e))) \<and>
   (etype ev = Submit \<or> \<not> validateOn_includes pr (etype ev) \<longrightarrow>
      on_event ts pr ev refs = (refs, Inr ())) \<and>
   (validateOn pr = default_validateOn \<longrightarrow> validateOn_includes pr (etype ev)) \<and>
   snd (on_event ts pr ev refs) \<noteq> Inl (FormException m)"
proof -
  have run: "etype ev \<noteq> Submit \<and> validateOn_includes pr (etype ev) \<longrightarrow>
      fst (on_event ts pr ev refs) = fst (validate ts pr (Some (epath ev)) \<lparr>silent = Some True\<rparr> refs)"
    by (simp add: on_event_def split: prod.splits sum.splits)
  have field: "etype ev \<noteq> Submit \<and> validateOn_includes pr (etype ev) \<longrightarrow>
      getErrors ts pr = Inr es \<and> epath ev \<noteq> [] \<longrightarrow>
      on_event ts pr ev refs =
        (refs\<lparr>errors := filter (\<lambda>error. path error \<noteq> epath ev) (errors refs) @
                           filter (\<lambda>error. path error = epath ev) es\<rparr>, Inr ())"
    by (simp add: on_event_def validate_field [of ts pr es "Some (epath ev)" "epath ev"])
  have whole: "etype ev \<noteq> Submit \<and> validateOn_includes pr (etype ev) \<longrightarrow>
      getErrors ts pr = Inr es \<and> epath ev = [] \<longrightarrow>
      on_event ts pr ev refs = (refs\<lparr>errors := es\<rparr>, Inr ())"
    by (auto simp: on_event_def validate_whole)
  have thrown: "etype ev \<noteq> Submit \<and> validateOn_includes pr (etype ev) \<longrightarrow>
      getErrors ts pr = Inl e \<longrightarrow> on_event ts pr ev refs = (refs, Inl e)"
    by (simp add: on_event_def validate_rejected)
  have skip: "etype ev = Submit \<or> \<not> validateOn_includes pr (etype ev) \<longrightarrow>
      on_event ts pr ev refs = (refs, Inr ())"
    by (auto simp: on_event_def)
  have dflt: "validateOn pr = default_validateOn \<longrightarrow> validateOn_includes pr (etype ev)"
    by (simp add: default_validateOn_all)
  have quiet: "snd (on_event ts pr ev refs) \<noteq> Inl (FormException m)"
    using validate_not_FormException_silent [of "\<lparr>silent = Some True\<rparr>" ts pr "Some (epath ev)" refs m]
    by (auto simp: on_event_def split: prod.splits sum.splits)
  from run field whole thrown skip dflt quiet show ?thesis by blast
qed

theorem bus_listener_revalidates_witness:
  "on_event ex_number_string (ex_form (Some every_kind) []) \<lparr>etype = Blur, epath = ''email''\<rparr> ex_refs =
     (ex_refs\<lparr>errors := [\<lparr>path = ''name'', message = ''too short''\<rparr>,
                          \<lparr>path = ''email'', message = ''is empty''\<rparr>]\<rparr>, Inr ()) \<and>
   on_event ex_number_string (ex_form (Some every_kind) []) \<lparr>etype = Submit, epath = ''email''\<rparr> ex_refs =
     (ex_refs, Inr ()) \<and>
   on_event ex_number_string ((ex_form (Some every_kind) [])\<lparr>validateOn := Some [Blur, Submit]\<rparr>)
     \<lparr>etype = Input, epath = ''email''\<rparr> ex_refs = (ex_refs, Inr ())"
  using
    bus_listener_revalidates [where ts = ex_number_string and pr = "ex_form (Some every_kind) []"
      and ev = "\<lparr>etype = Blur, epath = ''email''\<rparr>" and refs = ex_refs
      and e = "Thrown ex_other_error" and m = "[]"
      and es = "[\<lparr>path = ''email'', message = ''is empty''\<rparr>,
                 \<lparr>path = ''user.email'', message = ''zod: required''\<rparr>,
                 \<lparr>path = [], message = ''zod: invalid form''\<rparr>]"]
    bus_listener_revalidates [where ts = ex_number_string and pr = "ex_form (Some every_kind) []"
      and ev = "\<lparr>etype = Submit, epath = ''email''\<rparr>" and refs = ex_refs
      and e = "Thrown ex_other_error" and m = "[]" and es = "[]"]
    bus_listener_revalidates [where
      pr = "(ex_form (Some every_kind) [])\<lparr>validateOn := Some [Blur, Submit]\<rparr>"
      and ev = "\<lparr>etype = Input, epath = ''email''\<rparr>" and refs = ex_refs
      and e = "Thrown ex_other_error" and m = "[]" and es = "[]"]
  by (simp add: ex_getErrors_rejected default_validateOn_all validateOn_includes_def
      ex_form_simps ex_refs_def)

text \<open>
  The claim C8 as stated, revalidation exactly when the type is among the triggers, fails
  for a \<open>submit\<close> event: the listener tests \<open>event.type !== 'submit'\<close> first. With the
  default triggers, which hold \<open>submit\<close>, a \<open>submit\<close> event at \<open>email\<close> leaves the stale
  entry at \<open>email\<close>, where silent validation of \<open>email\<close> replaces it.
\<close>

theorem bus_listener_submit_counterexample:
  "validateOn_includes (ex_form (Some every_kind) []) Submit \<and>
   errors (fst (on_event ex_number_string (ex_form (Some every_kind) []) \<lparr>etype = Submit, epath = ''email''\<rparr> ex_refs))
     = [\<lparr>path = ''name'', message = ''too short''\<rparr>, \<lparr>path = ''email'', message = ''stale''\<rparr>] \<and>
   errors (fst (validate ex_number_string (ex_form (Some every_kind) []) (Some ''email'') \<lparr>silent = Some True\<rparr> ex_refs))
     = [\<lparr>path = ''name'', message = ''too short''\<rparr>, \<lparr>path = ''email'', message = ''is empty''\<rparr>]"
  by (simp add: on_event_def validate_def ex_getErrors_rejected default_validateOn_all
      ex_form_simps ex_refs_def)

subsection \<open>Native errors that are not validation failures\<close>

text \<open>
  C9. In the Yup adapter an error thrown by the schema that has no \<open>inner\<close>, and in the
  Joi adapter one whose \<open>isJoi\<close> is not \<open>true\<close>, is thrown again as it is; the Zod and
  Valibot adapters catch nothing, so every error thrown by the schema leaves them as it
  is. The Yup and Joi adapters return errors only for a thrown error of the expected
  shape. Through \<open>getErrors\<close> the error reaches the caller of \<open>validate\<close>, with the error
  collection as it was.
\<close>

theorem unrecognised_native_errors_rethrown:
  "(validate_method sch = Callable yf \<and> yf st = Inl ex \<and> inner ex = None \<longrightarrow>
      getYupErrors st sch = Inl (Thrown ex)) \<and>
   (validateAsync sch = Callable jf \<and> jf st = Inl ex \<and> isJoi ex \<noteq> JBool True \<longrightarrow>
      getJoiErrors ts st sch = Inl (Thrown ex)) \<and>
   (safeParseAsync sch = Callable zf \<and> zf st = Inl ex \<longrightarrow>
      getZodErrors ts st sch = Inl (Thrown ex)) \<and>
   (parse_internal sch = Callable vf \<and> vf st = Inl ex \<longrightarrow>
      getValibotError ts st sch = Inl (Thrown ex)) \<and>
   (getYupErrors st sch = Inr errs \<and> errs \<noteq> [] \<longrightarrow>
      (\<exists>f e iss. validate_method sch = Callable f \<and> f st = Inl e \<and> inner e = Some iss)) \<and>
   (getJoiErrors ts st sch = Inr errs \<and> errs \<noteq> [] \<longrightarrow>
      (\<exists>f e ds. validateAsync sch = Callable f \<and> f st = Inl e \<and> isJoi e = JBool True \<and>
         details e = Some ds)) \<and>
   (validate_prop pr (state pr) = Inr found \<and> schema pr = Some sch \<and> st = state pr \<and>
    \<not> isZodSchema sch \<and> isYupSchema sch \<and>
    validate_method sch = Callable yf \<and> yf st = Inl ex \<and> inner ex = None \<longrightarrow>
      validate ts pr pth opts refs = (refs, Inl (Thrown ex))) \<and>
   (validate_prop pr (state pr) = Inr found \<and> schema pr = Some sch \<and> st = state pr \<and>
    \<not> isZodSchema sch \<and> \<not> isYupSchema sch \<and> isJoiSchema sch \<and>
    validateAsync sch = Callable jf \<and> jf st = Inl ex \<and> isJoi ex \<noteq> JBool True \<longrightarrow>
      validate ts pr pth opts refs = (refs, Inl (Thrown ex)))"
proof -
  have yup: "validate_method sch = Callable yf \<and> yf st = Inl ex \<and> inner ex = None \<longrightarrow>
      getYupErrors st sch = Inl (Thrown ex)"
    by (simp add: getYupErrors_def call_method_def isYupError_def)
  have joi: "validateAsync sch = Callable jf \<and> jf st = Inl ex \<and> isJoi ex \<noteq> JBool True \<longrightarrow>
      getJoiErrors ts st sch = Inl (Thrown ex)"
    by (simp add: getJoiErrors_def call_method_def isJoiError_def)
  have zod: "safeParseAsync sch = Callable zf \<and> zf st = Inl ex \<longrightarrow>
      getZodErrors ts st sch = Inl (Thrown ex)"
    by (simp add: getZodErrors_def call_method_def)
  have valibot: "parse_internal sch = Callable vf \<and> vf st = Inl ex \<longrightarrow>
      getValibotError ts st sch = Inl (Thrown ex)"
    by (simp add: getValibotError_def call_method_def)
  have yup_only: "getYupErrors st sch = Inr errs \<and> errs \<noteq> [] \<longrightarrow>
      (\<exists>f e iss. validate_method sch = Callable f \<and> f st = Inl e \<and> inner e = Some iss)"
    by (auto simp: getYupErrors_def call_method_def isYupError_def
        split: member.splits sum.splits option.splits if_splits)
  have joi_only: "getJoiErrors ts st sch = Inr errs \<and> errs \<noteq> [] \<longrightarrow>
      (\<exists>f e ds. validateAsync sch = Callable f \<and> f st = Inl e \<and> isJoi e = JBool True \<and>
         details e = Some ds)"
    by (auto simp: getJoiErrors_def call_method_def isJoiError_def
        split: member.splits sum.splits option.splits if_splits)
  have yup_up: "validate_prop pr (state pr) = Inr found \<and> schema pr = Some sch \<and> st = state pr \<and>
      \<not> isZodSchema sch \<and> isYupSchema sch \<and>
      validate_method sch = Callable yf \<and> yf st = Inl ex \<and> inner ex = None \<longrightarrow>
        validate ts pr pth opts refs = (refs, Inl (Thrown ex))"
  proof (intro impI)
    assume a: "validate_prop pr (state pr) = Inr found \<and> schema pr = Some sch \<and> st = state pr \<and>
      \<not> isZodSchema sch \<and> isYupSchema sch \<and>
      validate_method sch = Callable yf \<and> yf st = Inl ex \<and> inner ex = None"
    then have "getYupErrors (state pr) sch = Inl (Thrown ex)" using yup by auto
    then have "getErrors ts pr = Inl (Thrown ex)"
      using a by (simp add: getErrors_def concat_errors_def)
    then show "validate ts pr pth opts refs = (refs, Inl (Thrown ex))"
      by (rule validate_rejected)
  qed
  have joi_up: "validate_prop pr (state pr) = Inr found \<and> schema pr = Some sch \<and> st = state pr \<and>
      \<not> isZodSchema sch \<and> \<not> isYupSchema sch \<and> isJoiSchema sch \<and>
      validateAsync sch = Callable jf \<and> jf st = Inl ex \<and> isJoi ex \<noteq> JBool True \<longrightarrow>
        validate ts pr pth opts refs = (refs, Inl (Thrown ex))"
  proof (intro impI)
    assume a: "validate_prop pr (state pr) = Inr found \<and> schema pr = Some sch \<and> st = state pr \<and>
      \<not> isZodSchema sch \<and> \<not> isYupSchema sch \<and> isJoiSchema sch \<and>
      validateAsync sch = Callable jf \<and> jf st = Inl ex \<and> isJoi ex \<noteq> JBool True"
    then have "getJoiErrors ts (state pr) sch = Inl (Thrown ex)" using joi by auto
    then have "getErrors ts pr = Inl (Thrown ex)"
      using a by (simp add: getErrors_def concat_errors_def)
    then show "validate ts pr pth opts refs = (refs, Inl (Thrown ex))"
      by (rule validate_rejected)
  qed
  from yup joi zod valibot yup_only joi_only yup_up joi_up show ?thesis by blast
qed

theorem unrecognised_native_errors_rethrown_witness:
  "getYupErrors ''boom'' every_kind = Inl (Thrown ex_other_error) \<and>
   getJoiErrors ex_number_string ''boom'' every_kind = Inl (Thrown ex_other_error) \<and>
   getZodErrors ex_number_string ''boom'' every_kind = Inl (Thrown ex_other_error) \<and>
   getValibotError ex_number_string ''boom'' every_kind = Inl (Thrown ex_other_error) \<and>
   validate ex_number_string (ex_form (Some yup_kind) ''boom'') None default_opts ex_refs
     = (ex_refs, Inl (Thrown ex_other_error)) \<and>
   validate ex_number_string (ex_form (Some joi_kind) ''boom'') None default_opts ex_refs
     = (ex_refs, Inl (Thrown ex_other_error))"
  using
    unrecognised_native_errors_rethrown [where ts = ex_number_string and sch = every_kind and st = "''boom''"
      and ex = ex_other_error and yf = ex_validate and jf = ex_validateAsync
      and zf = ex_safeParseAsync and vf = ex_parse and errs = "[]"
      and pr = "ex_form (Some every_kind) ''boom''" and found = "[]" and pth = None
      and opts = default_opts and refs = ex_refs]
    unrecognised_native_errors_rethrown [where ts = ex_number_string and sch = yup_kind and st = "''boom''"
      and ex = ex_other_error and yf = ex_validate and jf = ex_validateAsync
      and zf = ex_safeParseAsync and vf = ex_parse and errs = "[]"
      and pr = "ex_form (Some yup_kind) ''boom''" and found = "[]" and pth = None
      and opts = default_opts and refs = ex_refs]
    unrecognised_native_errors_rethrown [where ts = ex_number_string and sch = joi_kind and st = "''boom''"
      and ex = ex_other_error and yf = ex_validate and jf = ex_validateAsync
      and zf = ex_safeParseAsync and vf = ex_parse and errs = "[]"
      and pr = "ex_form (Some joi_kind) ''boom''" and found = "[]" and pth = None
      and opts = default_opts and refs = ex_refs]
  by (simp add: every_kind_def yup_kind_def joi_kind_def ex_form_def ex_validator_def
      ex_validate_def ex_validateAsync_def ex_safeParseAsync_def ex_parse_def ex_other_error_def
      isZodSchema_def isYupSchema_def isJoiSchema_def)

subsection \<open>The imperative validator and the schema\<close>

text \<open>
  C10. \<open>getErrors\<close> runs the imperative validator first: when it throws, that is the
  outcome and the schema is not looked at; when it returns \<open>errs\<close> and there is no
  schema, the outcome is \<open>errs\<close>; with a schema, every outcome that is a sequence is
  \<open>errs\<close> followed by what the adapter of the detected kind found. The path filter of
  \<open>validate(p)\<close> is applied to that concatenation. The default validator returns the
  empty sequence.
\<close>

theorem imperative_errors_come_first:
  "(validate_prop pr (state pr) = Inl ex \<longrightarrow> getErrors ts pr = Inl (Thrown ex)) \<and>
   (validate_prop pr (state pr) = Inr errs \<and> schema pr = None \<longrightarrow> getErrors ts pr = Inr errs) \<and>
   (validate_prop pr (state pr) = Inr errs \<and> schema pr = Some sch \<and> getErrors ts pr = Inr es \<longrightarrow>
      (\<exists>found. es = errs @ found \<and>
         (getZodErrors ts (state pr) sch = Inr found \<or> getYupErrors (state pr) sch = Inr found \<or>
          getJoiErrors ts (state pr) sch = Inr found \<or> getValibotError ts (state pr) sch = Inr found))) \<and>
   (validate_prop pr (state pr) = Inr errs \<and> schema pr = Some sch \<longrightarrow>
      (isZodSchema sch \<and> getZodErrors ts (state pr) sch = Inr found \<longrightarrow>
         getErrors ts pr = Inr (errs @ found)) \<and>
      (\<not> isZodSchema sch \<and> isYupSchema sch \<and> getYupErrors (state pr) sch = Inr found \<longrightarrow>
         getErrors ts pr = Inr (errs @ found)) \<and>
      (\<not> isZodSchema sch \<and> \<not> isYupSchema sch \<and> isJoiSchema sch \<and>
       getJoiErrors ts (state pr) sch = Inr found \<longrightarrow>
         getErrors ts pr = Inr (errs @ found)) \<and>
      (\<not> isZodSchema sch \<and> \<not> isYupSchema sch \<and> \<not> isJoiSchema sch \<and> isValibotSchema sch \<and>
       getValibotError ts (state pr) sch = Inr found \<longrightarrow>
         getErrors ts pr = Inr (errs @ found))) \<and>
   (getErrors ts pr = Inr es \<and> p \<noteq> [] \<longrightarrow>
      errors (fst (validate ts pr (Some p) opts refs)) =
        filter (\<lambda>e. path e \<noteq> p) (errors refs) @ filter (\<lambda>e. path e = p) es) \<and>
   (validate_prop pr = default_validate \<longrightarrow> validate_prop pr (state pr) = Inr []) \<and>
   (validate_prop pr = default_validate \<and> schema pr = None \<longrightarrow> getErrors ts pr = Inr [])"
proof -
  have first: "validate_prop pr (state pr) = Inl ex \<longrightarrow> getErrors ts pr = Inl (Thrown ex)"
    by (simp add: getErrors_def)
  have alone: "validate_prop pr (state pr) = Inr errs \<and> schema pr = None \<longrightarrow> getErrors ts pr = Inr errs"
    by (simp add: getErrors_def)
  have split: "validate_prop pr (state pr) = Inr errs \<and> schema pr = Some sch \<and> getErrors ts pr = Inr es \<longrightarrow>
      (\<exists>found. es = errs @ found \<and>
         (getZodErrors ts (state pr) sch = Inr found \<or> getYupErrors (state pr) sch = Inr found \<or>
          getJoiErrors ts (state pr) sch = Inr found \<or> getValibotError ts (state pr) sch = Inr found))"
    by (auto simp: getErrors_dispatch concat_errors_def split: sum.splits if_splits)
  have kinds: "validate_prop pr (state pr) = Inr errs \<and> schema pr = Some sch \<longrightarrow>
      (isZodSchema sch \<and> getZodErrors ts (state pr) sch = Inr found \<longrightarrow>
         getErrors ts pr = Inr (errs @ found)) \<and>
      (\<not> isZodSchema sch \<and> isYupSchema sch \<and> getYupErrors (state pr) sch = Inr found \<longrightarrow>
         getErrors ts pr = Inr (errs @ found)) \<and>
      (\<not> isZodSchema sch \<and> \<not> isYupSchema sch \<and> isJoiSchema sch \<and>
       getJoiErrors ts (state pr) sch = Inr found \<longrightarrow>
         getErrors ts pr = Inr (errs @ found)) \<and>
      (\<not> isZodSchema sch \<and> \<not> isYupSchema sch \<and> \<not> isJoiSchema sch \<and> isValibotSchema sch \<and>
       getValibotError ts (state pr) sch = Inr found \<longrightarrow>
         getErrors ts pr = Inr (errs @ found))"
    by (simp add: getErrors_dispatch concat_errors_def)
  have filtered: "getErrors ts pr = Inr es \<and> p \<noteq> [] \<longrightarrow>
      errors (fst (validate ts pr (Some p) opts refs)) =
        filter (\<lambda>e. path e \<noteq> p) (errors refs) @ filter (\<lambda>e. path e = p) es"
    by (simp add: validate_field [of ts pr es "Some p" p])
  have dflt: "validate_prop pr = default_validate \<longrightarrow> validate_prop pr (state pr) = Inr []"
    by (simp add: default_validate_def)
  have dflt_alone: "validate_prop pr = default_validate \<and> schema pr = None \<longrightarrow> getErrors ts pr = Inr []"
    by (simp add: getErrors_def default_validate_def)
  from first alone split kinds filtered dflt dflt_alone show ?thesis by blast
qed

theorem imperative_errors_come_first_witness:
  "getErrors ex_number_string (ex_form (Some every_kind) []) =
     Inr ([\<lparr>path = ''email'', message = ''is empty''\<rparr>] @
          [\<lparr>path = ''user.email'', message = ''zod: required''\<rparr>,
           \<lparr>path = [], message = ''zod: invalid form''\<rparr>]) \<and>
   getErrors ex_number_string (ex_form None []) = Inr [\<lparr>path = ''email'', message = ''is empty''\<rparr>] \<and>
   errors (fst (validate ex_number_string (ex_form (Some every_kind) []) (Some ''email'') default_opts ex_refs)) =
     [\<lparr>path = ''name'', message = ''too short''\<rparr>, \<lparr>path = ''email'', message = ''is empty''\<rparr>] \<and>
   getErrors ex_number_string ((ex_form None [])\<lparr>validate_prop := default_validate\<rparr>) = Inr []"
  using
    imperative_errors_come_first [where ts = ex_number_string and pr = "ex_form (Some every_kind) []"
      and ex = ex_other_error and errs = "[\<lparr>path = ''email'', message = ''is empty''\<rparr>]"
      and sch = every_kind
      and es = "[\<lparr>path = ''email'', message = ''is empty''\<rparr>,
                 \<lparr>path = ''user.email'', message = ''zod: required''\<rparr>,
                 \<lparr>path = [], message = ''zod: invalid form''\<rparr>]"
      and found = "[\<lparr>path = ''user.email'', message = ''zod: required''\<rparr>,
                    \<lparr>path = [], message = ''zod: invalid form''\<rparr>]"
      and p = "''email''" and opts = default_opts and refs = ex_refs]
    imperative_errors_come_first [where ts = ex_number_string and pr = "ex_form None []"
      and ex = ex_other_error and errs = "[\<lparr>path = ''email'', message = ''is empty''\<rparr>]"
      and sch = every_kind and es = "[]" and found = "[]"
      and p = "''email''" and opts = default_opts and refs = ex_refs]
    imperative_errors_come_first [where ts = ex_number_string and pr = "(ex_form None [])\<lparr>validate_prop := default_validate\<rparr>"
      and ex = ex_other_error and errs = "[]"
      and sch = every_kind and es = "[]" and found = "[]"
      and p = "''email''" and opts = default_opts and refs = ex_refs]
  by (simp add: ex_getErrors_rejected ex_form_simps ex_validator_def ex_refs_def every_kind_def
      isZodSchema_def getZodErrors_def call_method_def ex_safeParseAsync_def ex_zod_issues_def)

end
